theory Spec2Isabelle
  imports Complex_Main "HOL-Library.Char_ord" "HOL-Library.List_Lexorder"
begin

section \<open>Python values and exceptions\<close>

text \<open>
  The annotation document is parsed structured text, so the values that reach
  \<^verbatim>\<open>validateGroupStructure\<close> are the dynamically typed values of a parsed document:
  \<^verbatim>\<open>None\<close>, booleans, integers, strings, lists and dictionaries. A dictionary is
  an association list in insertion order, which is the order Python iterates it in.
  Keys are values themselves, because the source tests \<^verbatim>\<open>isinstance(key, str)\<close>.
  Keys are compared structurally; Python additionally identifies the keys \<^verbatim>\<open>True\<close>
  and \<^verbatim>\<open>1\<close>, which no statement below depends on.
\<close>

datatype pyval =
    PNone
  | PBool bool
  | PInt int
  | PStr string
  | PList "pyval list"
  | PDict "(pyval \<times> pyval) list"

text \<open>
  The source raises \<^verbatim>\<open>RuntimeError\<close> with three different messages; the message is
  kept as a constructor carrying the value that the f-string prints. The other
  constructors are the exceptions of the interpreter and of the collaborators that can
  escape from the functions modelled here.
\<close>

datatype runtime_error =
    NotADictionary pyval
  | NotAString pyval
  | UnsupportedOutputImageType string

datatype error =
    RuntimeError runtime_error
  | TypeError pyval
  | KeyError string
  | ValueError
  | AttributeError
  | CalledProcessError
  | WandError
  | OSError string

fun isinstance_str :: "pyval \<Rightarrow> bool" where
  "isinstance_str (PStr s) = True"
| "isinstance_str v = False"

fun hashable :: "pyval \<Rightarrow> bool" where
  "hashable (PList vs) = False"
| "hashable (PDict d) = False"
| "hashable v = True"

text \<open>\<^verbatim>\<open>d[k] = v\<close>: an existing key keeps its place and gets the new value, a new key goes last.\<close>

fun setitem :: "('k \<times> 'v) list \<Rightarrow> 'k \<Rightarrow> 'v \<Rightarrow> ('k \<times> 'v) list" where
  "setitem [] k v = [(k, v)]"
| "setitem ((k', v') # d) k v =
     (if k' = k then (k', v) # d else (k', v') # setitem d k v)"

section \<open>Group taxonomy: validation\<close>

text \<open>
  \<^verbatim>\<open>{ v: {} for v in value }\<close>: every element of the list becomes a key; an element
  that cannot be hashed (a list or a dictionary) raises \<^verbatim>\<open>TypeError\<close>.
\<close>

fun leafDict :: "pyval list \<Rightarrow> (pyval \<times> pyval) list \<Rightarrow> error + (pyval \<times> pyval) list" where
  "leafDict [] d = Inr d"
| "leafDict (v # vs) d =
     (if hashable v then leafDict vs (setitem d v (PDict [])) else Inl (TypeError v))"

text \<open>
  \<^verbatim>\<open>validateGroupStructure\<close>. The loop over \<^verbatim>\<open>struct.items()\<close> is
  \<open>validateItems\<close>, with \<^verbatim>\<open>newStruct\<close> as its accumulator. The two \<^verbatim>\<open>isinstance\<close>
  tests on the value are consecutive \<^verbatim>\<open>if\<close>s without an \<^verbatim>\<open>else\<close>: a value that
  is neither \<^verbatim>\<open>None\<close>, a dictionary nor a list falls through both and the loop goes on
  to the next item.
\<close>

fun validateGroupStructure :: "pyval \<Rightarrow> error + pyval"
  and validateItems :: "(pyval \<times> pyval) list \<Rightarrow> (pyval \<times> pyval) list \<Rightarrow> error + pyval"
where
  "validateGroupStructure (PDict items) = validateItems items []"
| "validateGroupStructure PNone = Inl (RuntimeError (NotADictionary PNone))"
| "validateGroupStructure (PBool b) = Inl (RuntimeError (NotADictionary (PBool b)))"
| "validateGroupStructure (PInt i) = Inl (RuntimeError (NotADictionary (PInt i)))"
| "validateGroupStructure (PStr s) = Inl (RuntimeError (NotADictionary (PStr s)))"
| "validateGroupStructure (PList vs) = Inl (RuntimeError (NotADictionary (PList vs)))"
| "validateItems [] newStruct = Inr (PDict newStruct)"
| "validateItems ((key, val) # rest) newStruct =
     (if \<not> isinstance_str key then Inl (RuntimeError (NotAString key))
      else case val of
        PNone \<Rightarrow> validateItems rest (setitem newStruct key (PDict []))
      | PDict d \<Rightarrow>
          (case validateGroupStructure (PDict d) of
             Inl e \<Rightarrow> Inl e
           | Inr sub \<Rightarrow> validateItems rest (setitem newStruct key sub))
      | PList vs \<Rightarrow>
          (case leafDict vs [] of
             Inl e \<Rightarrow> Inl e
           | Inr leaves \<Rightarrow> validateItems rest (setitem newStruct key (PDict leaves)))
      | PBool b \<Rightarrow> validateItems rest newStruct
      | PInt i \<Rightarrow> validateItems rest newStruct
      | PStr s \<Rightarrow> validateItems rest newStruct)"

text \<open>
  The canonical form of the specification: a dictionary with string keys whose values
  are canonical again (the empty dictionary is a leaf). A Python dictionary has no
  repeated key, which the association list has to be told.
\<close>

fun canonical :: "pyval \<Rightarrow> bool" where
  "canonical (PDict items) =
     (distinct (map fst items) \<and> list_all (\<lambda>(k, v). isinstance_str k \<and> canonical v) items)"
| "canonical v = False"

section \<open>Unit conversion\<close>

text \<open>
  Python's numbers (unbounded integers and double-precision floats) are idealised as
  real numbers here: the arithmetic below is exact, and neither the rounding nor the
  overflow of a double is part of the model.
\<close>

definition dmil2ki :: "real \<Rightarrow> real" where
  "dmil2ki val = val * 2540"

definition ki2mm :: "real \<Rightarrow> real" where
  "ki2mm val = val / 1000000"

definition mm2ki :: "real \<Rightarrow> real" where
  "mm2ki val = val * 1000000"

section \<open>The board model and the geometry taken from it\<close>

text \<open>
  The board tool is a collaborator. Its objects are records of what the accessors called
  by the source return: lengths and coordinates are integers in native units, and
  \<open>TransformShapeWithClearanceToPolygon\<close> gives, for a clearance, the points of the
  first outline of the polygon the tool builds.
\<close>

record EDA_RECT =
  GetX :: int
  GetY :: int
  GetWidth :: int
  GetHeight :: int

datatype layer = F_Cu | B_Cu | In_Cu nat

record pad =
  GetName :: string
  GetPosition :: "int \<times> int"
  GetBoundingBox :: EDA_RECT
  CuStack :: "layer list"
  TransformShapeWithClearanceToPolygon :: "real \<Rightarrow> (int \<times> int) list"

record footprint =
  Pads :: "pad list"

record board =
  GetFileName :: string
  FindModule :: "string \<Rightarrow> footprint option"

record BoundingBox =
  bbox_tl :: "real \<times> real"
  bbox_br :: "real \<times> real"

definition padOutline :: "pad \<Rightarrow> real \<Rightarrow> (real \<times> real) list" where
  "padOutline pad offsetBy =
     map (\<lambda>p. (ki2mm (of_int (fst p)), ki2mm (of_int (snd p))))
       (TransformShapeWithClearanceToPolygon pad offsetBy)"

definition serializeEdaRect :: "EDA_RECT \<Rightarrow> BoundingBox" where
  "serializeEdaRect rect =
     \<lparr> bbox_tl = (ki2mm (of_int (GetX rect)), ki2mm (of_int (GetY rect))),
       bbox_br = (ki2mm (of_int (GetX rect + GetWidth rect)),
                  ki2mm (of_int (GetY rect + GetHeight rect))) \<rparr>"

section \<open>Assembling components and pins\<close>

text \<open>
  The annotation of a pin and of a component. A field is \<open>None\<close> when the key is
  absent from the dictionary: \<^verbatim>\<open>spec.get(key, default)\<close> then takes the default, and
  \<^verbatim>\<open>spec[key]\<close> raises \<^verbatim>\<open>KeyError\<close>. The \<^verbatim>\<open>pins\<close> dictionary is an association
  list in document order, without repeated keys.
\<close>

record PinSpec =
  ps_name :: "string option"
  ps_description :: "string option"
  ps_alias :: "bool option"
  ps_groups :: "string list option"
  ps_offset :: "real option"

record ComponentSpec =
  cs_description :: "string option"
  cs_highlight :: "bool option"
  cs_groups :: "string list option"
  cs_pins :: "(string \<times> PinSpec) list option"

record Pin =
  pin_shape :: "(real \<times> real) list"
  pin_bbox :: BoundingBox
  pin_pos :: "real \<times> real"
  pin_front :: bool
  pin_back :: bool
  pin_name :: string
  pin_description :: string
  pin_alias :: bool
  pin_groups :: "string list"

record Component =
  comp_ref :: string
  comp_description :: string
  comp_highlight :: bool
  comp_groups :: "string list"
  comp_pins :: "Pin list"

definition get_default :: "'a option \<Rightarrow> 'a \<Rightarrow> 'a" where
  "get_default field d = (case field of None \<Rightarrow> d | Some v \<Rightarrow> v)"

text \<open>
  \<^verbatim>\<open>pinDefinition\<close>: the entries of the dictionary literal are evaluated in order, and
  only \<^verbatim>\<open>spec["name"]\<close> can raise.
\<close>

definition pinDefinition :: "PinSpec \<Rightarrow> pad \<Rightarrow> footprint \<Rightarrow> error + Pin" where
  "pinDefinition spec pad fp =
     (case ps_name spec of
        None \<Rightarrow> Inl (KeyError ''name'')
      | Some n \<Rightarrow> Inr
          \<lparr> pin_shape = padOutline pad (mm2ki (get_default (ps_offset spec) 0)),
            pin_bbox = serializeEdaRect (GetBoundingBox pad),
            pin_pos = (ki2mm (of_int (fst (GetPosition pad))),
                       ki2mm (of_int (snd (GetPosition pad)))),
            pin_front = (F_Cu \<in> set (CuStack pad)),
            pin_back = (B_Cu \<in> set (CuStack pad)),
            pin_name = n,
            pin_description = get_default (ps_description spec) [],
            pin_alias = get_default (ps_alias spec) False,
            pin_groups = get_default (ps_groups spec) [] \<rparr>)"

text \<open>
  The list comprehension of \<^verbatim>\<open>pinsDefinition\<close> over \<^verbatim>\<open>footprint.Pads()\<close>: a pad
  whose name is no key of \<^verbatim>\<open>spec\<close> is skipped by the filter; for the others
  \<^verbatim>\<open>spec[pad.GetName()]\<close> is the value stored under the name.
\<close>

fun pinsOfPads :: "(string \<times> PinSpec) list \<Rightarrow> footprint \<Rightarrow> pad list \<Rightarrow> error + Pin list" where
  "pinsOfPads spec fp [] = Inr []"
| "pinsOfPads spec fp (pad # pads) =
     (case map_of spec (GetName pad) of
        None \<Rightarrow> pinsOfPads spec fp pads
      | Some s \<Rightarrow>
          (case pinDefinition s pad fp of
             Inl e \<Rightarrow> Inl e
           | Inr pin \<Rightarrow>
               (case pinsOfPads spec fp pads of
                  Inl e \<Rightarrow> Inl e
                | Inr pins \<Rightarrow> Inr (pin # pins))))"

text \<open>
  \<^verbatim>\<open>board.FindModule(ref)\<close> gives \<^verbatim>\<open>None\<close> for an unknown reference, and
  \<^verbatim>\<open>footprint.Pads()\<close> on it raises \<^verbatim>\<open>AttributeError\<close>.
\<close>

definition pinsDefinition :: "(string \<times> PinSpec) list \<Rightarrow> footprint option \<Rightarrow> error + Pin list" where
  "pinsDefinition spec fpo =
     (case fpo of
        None \<Rightarrow> Inl AttributeError
      | Some fp \<Rightarrow> pinsOfPads spec fp (Pads fp))"

fun componentsDefinition :: "(string \<times> ComponentSpec) list \<Rightarrow> board \<Rightarrow> error + Component list" where
  "componentsDefinition [] brd = Inr []"
| "componentsDefinition ((ref, s) # rest) brd =
     (case cs_description s of
        None \<Rightarrow> Inl (KeyError ''description'')
      | Some descr \<Rightarrow>
          (case cs_pins s of
             None \<Rightarrow> Inl (KeyError ''pins'')
           | Some pinspecs \<Rightarrow>
               (case pinsDefinition pinspecs (FindModule brd ref) of
                  Inl e \<Rightarrow> Inl e
                | Inr pins \<Rightarrow>
                    (case componentsDefinition rest brd of
                       Inl e \<Rightarrow> Inl e
                     | Inr defs \<Rightarrow> Inr
                         (\<lparr> comp_ref = ref,
                            comp_description = descr,
                            comp_highlight = get_default (cs_highlight s) False,
                            comp_groups = get_default (cs_groups s) [],
                            comp_pins = pins \<rparr> # defs)))))"

section \<open>Group taxonomy: collection\<close>

text \<open>
  Iterating a Python string yields its one-character strings.
\<close>

definition str_iter :: "string \<Rightarrow> string list" where
  "str_iter g = map (\<lambda>ch. [ch]) g"

text \<open>
  \<^verbatim>\<open>groups.update(*(c.get("groups", [])))\<close> unpacks the list of group names into the
  arguments of \<^verbatim>\<open>update\<close>, and \<^verbatim>\<open>update\<close> adds the elements of each argument:
  every name is itself iterated. \<^verbatim>\<open>groups.update(p.get("groups", []))\<close> passes the
  list as the one argument and adds the names.
\<close>

definition update_unpacked :: "string set \<Rightarrow> string list \<Rightarrow> string set" where
  "update_unpacked groups args = fold (\<lambda>arg gs. gs \<union> set (str_iter arg)) args groups"

definition update_pins :: "string set \<Rightarrow> PinSpec list \<Rightarrow> string set" where
  "update_pins groups ps = fold (\<lambda>p gs. gs \<union> set (get_default (ps_groups p) [])) ps groups"

fun collectLoop :: "(string \<times> ComponentSpec) list \<Rightarrow> string set \<Rightarrow> error + string set" where
  "collectLoop [] groups = Inr groups"
| "collectLoop ((ref, c) # rest) groups =
     (let groups1 = update_unpacked groups (get_default (cs_groups c) [])
      in case cs_pins c of
           None \<Rightarrow> Inl (KeyError ''pins'')
         | Some pins \<Rightarrow> collectLoop rest (update_pins groups1 (map snd pins)))"

text \<open>
  The set is turned into a list and sorted (strings compare lexicographically by
  character code); the result maps each element to the empty list \<^verbatim>\<open>[]\<close>.
\<close>

definition collectGroups :: "(string \<times> ComponentSpec) list \<Rightarrow> error + pyval" where
  "collectGroups components =
     (case collectLoop components {} of
        Inl e \<Rightarrow> Inl e
      | Inr groups \<Rightarrow> Inr (PDict (map (\<lambda>g. (PStr g, PList [])) (sorted_list_of_set groups))))"

definition groupStructure :: "pyval \<Rightarrow> (string \<times> ComponentSpec) list \<Rightarrow> error + pyval" where
  "groupStructure structure components =
     (if structure = PNone then collectGroups components
      else validateGroupStructure structure)"

text \<open>What one pass of the loop body adds to the set for a component.\<close>

definition collected :: "ComponentSpec \<Rightarrow> string set" where
  "collected c =
     (\<Union>g\<in>set (get_default (cs_groups c) []). set (str_iter g))
     \<union> (\<Union>p\<in>set (map snd (get_default (cs_pins c) [])). set (get_default (ps_groups p) []))"

section \<open>Strings and paths of the standard library\<close>

text \<open>
  \<^verbatim>\<open>str.lower\<close> and \<^verbatim>\<open>str.split()\<close> on ASCII text, and \<^verbatim>\<open>os.path.splitext\<close>
  as the standard library's \<^verbatim>\<open>genericpath._splitext\<close> computes it for POSIX paths:
  the extension starts at the last dot of the last path component, leading dots of that
  component not counted.
\<close>

definition lower_char :: "char \<Rightarrow> char" where
  "lower_char c =
     (if CHR ''A'' \<le> c \<and> c \<le> CHR ''Z'' then char_of (of_char c + (32::nat)) else c)"

definition str_lower :: "string \<Rightarrow> string" where
  "str_lower s = map lower_char s"

definition isspace :: "char \<Rightarrow> bool" where
  "isspace c = (c \<in> set [CHR 0x09, CHR 0x0A, CHR 0x0B, CHR 0x0C, CHR 0x0D,
                         CHR 0x1C, CHR 0x1D, CHR 0x1E, CHR 0x1F, CHR '' ''])"

fun split_from :: "string \<Rightarrow> string \<Rightarrow> string list" where
  "split_from [] w = (if w = [] then [] else [w])"
| "split_from (c # cs) w =
     (if isspace c then (if w = [] then split_from cs [] else w # split_from cs [])
      else split_from cs (w @ [c]))"

definition str_split :: "string \<Rightarrow> string list" where
  "str_split s = split_from s []"

fun rfind_from :: "string \<Rightarrow> char \<Rightarrow> int \<Rightarrow> int \<Rightarrow> int" where
  "rfind_from [] c i found = found"
| "rfind_from (x # xs) c i found = rfind_from xs c (i + 1) (if x = c then i else found)"

definition rfind :: "string \<Rightarrow> char \<Rightarrow> int" where
  "rfind p c = rfind_from p c 0 (- 1)"

function splitext_scan :: "string \<Rightarrow> int \<Rightarrow> int \<Rightarrow> string \<times> string" where
  "splitext_scan p filenameIndex dotIndex =
     (if filenameIndex < dotIndex then
        (if take 1 (drop (nat filenameIndex) p) \<noteq> ''.''
         then (take (nat dotIndex) p, drop (nat dotIndex) p)
         else splitext_scan p (filenameIndex + 1) dotIndex)
      else (p, []))"
  by pat_completeness auto
termination
  by (relation "measure (\<lambda>(p, filenameIndex, dotIndex). nat (dotIndex - filenameIndex))") auto

definition splitext :: "string \<Rightarrow> string \<times> string" where
  "splitext p =
     (let sepIndex = rfind p CHR ''/'';
          dotIndex = rfind p CHR ''.''
      in if dotIndex > sepIndex then splitext_scan p (sepIndex + 1) dotIndex else (p, []))"

text \<open>
  \<^verbatim>\<open>Path(outputdir) / name\<close> as a string, for a directory given as the string of its
  \<^verbatim>\<open>Path\<close>.
\<close>

definition joinpath :: "string \<Rightarrow> string \<Rightarrow> string" where
  "joinpath dir name =
     (if dir = [] \<or> dir = ''.'' then name
      else if last dir = CHR ''/'' then dir @ name
      else dir @ ''/'' @ name)"

section \<open>Image generation\<close>

text \<open>
  What the run does to the outside world is a trace of events, in the order they happen:
  directories made, the renderer started, a bitmap written, the document written. An
  event is recorded when the effect has taken place. What the outside world answers is
  the environment of the run: the vector image the renderer leaves for a command line
  (\<open>None\<close> for a non-zero exit status), whether a directory can be made and a file
  opened for writing, the temporary directory, and Python's \<^verbatim>\<open>float\<close> on a string
  (\<open>None\<close> for \<^verbatim>\<open>ValueError\<close>).
\<close>

record svg_document =
  svg_readable :: bool
  svg_viewBox :: "string option"

record pcbdrawArgs =
  arg_style :: "string option"
  arg_libs :: "string option"
  arg_remap :: "string option"
  arg_filter :: "string option"

record RenderedSide =
  side_file :: string
  side_area :: BoundingBox

record OutputDocument =
  doc_name :: string
  doc_description :: string
  doc_front :: RenderedSide
  doc_back :: RenderedSide
  doc_components :: "Component list"
  doc_groups :: pyval

datatype event =
    MakeDirs string
  | Run "string list"
  | WriteBitmap string string
  | WriteJson string OutputDocument

record env =
  tmpdir :: string
  pcbdraw :: "string list \<Rightarrow> svg_document option"
  mkdir_ok :: "string \<Rightarrow> bool"
  open_ok :: "string \<Rightarrow> bool"
  float_of_str :: "string \<Rightarrow> real option"

text \<open>
  \<^verbatim>\<open>svgToBitmap\<close>. The vector file is passed as its content. Reading it comes first,
  then the choice of the encoder from the extension, then the file is opened and the
  blob written.
\<close>

definition write_blob :: "env \<Rightarrow> string \<Rightarrow> string \<Rightarrow> event list \<Rightarrow> (error + unit) \<times> event list" where
  "write_blob ev outfilename ty tr =
     (if open_ok ev outfilename then (Inr (), tr @ [WriteBitmap outfilename ty])
      else (Inl (OSError outfilename), tr))"

definition svgToBitmap :: "env \<Rightarrow> svg_document \<Rightarrow> string \<Rightarrow> nat \<Rightarrow> event list \<Rightarrow> (error + unit) \<times> event list" where
  "svgToBitmap ev infile outfilename dpi tr =
     (if \<not> svg_readable infile then (Inl WandError, tr)
      else
        let ext = snd (splitext outfilename)
        in if str_lower ext = ''.png'' then write_blob ev outfilename ''png32'' tr
           else if str_lower ext \<in> set [''.jpg'', ''.jpeg''] then write_blob ev outfilename ''jpeg'' tr
           else (Inl (RuntimeError (UnsupportedOutputImageType ext)), tr))"

definition optional_arg :: "string \<Rightarrow> string option \<Rightarrow> string list" where
  "optional_arg flag v = (case v of None \<Rightarrow> [] | Some a \<Rightarrow> [flag, a])"

definition pcbdraw_command :: "string \<Rightarrow> string \<Rightarrow> pcbdrawArgs \<Rightarrow> bool \<Rightarrow> string list" where
  "pcbdraw_command boardfilename svgfilename args back =
     [''pcbdraw'', ''--shrink'', ''0'']
     @ (if back then [''--back''] else [])
     @ optional_arg ''--style'' (arg_style args)
     @ optional_arg ''--libs'' (arg_libs args)
     @ optional_arg ''--remap'' (arg_remap args)
     @ optional_arg ''--filter'' (arg_filter args)
     @ [boardfilename, svgfilename]"

text \<open>
  The four numbers of the \<^verbatim>\<open>viewBox\<close>: a word that is no number, or a number of words
  other than four, raises \<^verbatim>\<open>ValueError\<close>.
\<close>

definition viewBox_area :: "env \<Rightarrow> string \<Rightarrow> error + BoundingBox" where
  "viewBox_area ev vb =
     (case map (float_of_str ev) (str_split vb) of
        [Some tlx, Some tly, Some w, Some h] \<Rightarrow> Inr
          \<lparr> bbox_tl = (ki2mm (dmil2ki tlx), ki2mm (dmil2ki tly)),
            bbox_br = (ki2mm (dmil2ki (tlx + w)), ki2mm (dmil2ki (tly + h))) \<rparr>
      | _ \<Rightarrow> Inl ValueError)"

definition generateImage :: "env \<Rightarrow> string \<Rightarrow> string \<Rightarrow> nat \<Rightarrow> pcbdrawArgs \<Rightarrow> bool \<Rightarrow> event list
    \<Rightarrow> (error + BoundingBox) \<times> event list" where
  "generateImage ev boardfilename outputfilename dpi args back tr =
     (let command = pcbdraw_command boardfilename (tmpdir ev @ ''/img.svg'') args back;
          tr1 = tr @ [Run command]
      in case pcbdraw ev command of
           None \<Rightarrow> (Inl CalledProcessError, tr1)
         | Some svg \<Rightarrow>
             (case svgToBitmap ev svg outputfilename dpi tr1 of
                (Inl e, tr2) \<Rightarrow> (Inl e, tr2)
              | (Inr u, tr2) \<Rightarrow>
                  (case svg_viewBox svg of
                     None \<Rightarrow> (Inl (KeyError ''viewBox''), tr2)
                   | Some vb \<Rightarrow> (viewBox_area ev vb, tr2))))"

section \<open>The pipeline\<close>

record Specification =
  spec_name :: "string option"
  spec_description :: "string option"
  spec_components :: "(string \<times> ComponentSpec) list option"
  spec_groups :: pyval

text \<open>
  The dictionary literal of \<^verbatim>\<open>generate\<close>, its entries evaluated in order.
  \<^verbatim>\<open>specification.get("groups", None)\<close> is \<open>spec_groups\<close>, \<open>PNone\<close> when the key
  is absent.
\<close>

definition generate_document :: "board \<Rightarrow> Specification \<Rightarrow> BoundingBox \<Rightarrow> BoundingBox \<Rightarrow> error + OutputDocument" where
  "generate_document brd specification fSource bSource =
     (case spec_name specification of
        None \<Rightarrow> Inl (KeyError ''name'')
      | Some n \<Rightarrow>
     (case spec_description specification of
        None \<Rightarrow> Inl (KeyError ''description'')
      | Some d \<Rightarrow>
     (case spec_components specification of
        None \<Rightarrow> Inl (KeyError ''components'')
      | Some comps \<Rightarrow>
     (case componentsDefinition comps brd of
        Inl e \<Rightarrow> Inl e
      | Inr cdefs \<Rightarrow>
     (case groupStructure (spec_groups specification) comps of
        Inl e \<Rightarrow> Inl e
      | Inr groups \<Rightarrow> Inr
          \<lparr> doc_name = n,
            doc_description = d,
            doc_front = \<lparr> side_file = ''front.png'', side_area = fSource \<rparr>,
            doc_back = \<lparr> side_file = ''back.png'', side_area = bSource \<rparr>,
            doc_components = cdefs,
            doc_groups = groups \<rparr>)))))"

definition generate :: "env \<Rightarrow> board \<Rightarrow> Specification \<Rightarrow> string \<Rightarrow> nat \<Rightarrow> pcbdrawArgs
    \<Rightarrow> (error + unit) \<times> event list" where
  "generate ev brd specification outputdir dpi args =
     (if \<not> mkdir_ok ev outputdir then (Inl (OSError outputdir), [])
      else
        case generateImage ev (GetFileName brd) (joinpath outputdir ''front.png'') dpi args False
               [MakeDirs outputdir] of
          (Inl e, tr1) \<Rightarrow> (Inl e, tr1)
        | (Inr fSource, tr1) \<Rightarrow>
        (case generateImage ev (GetFileName brd) (joinpath outputdir ''back.png'') dpi args True tr1 of
          (Inl e, tr2) \<Rightarrow> (Inl e, tr2)
        | (Inr bSource, tr2) \<Rightarrow>
        (case generate_document brd specification fSource bSource of
          Inl e \<Rightarrow> (Inl e, tr2)
        | Inr doc \<Rightarrow>
            if open_ok ev (joinpath outputdir ''spec.json'')
            then (Inr (), tr2 @ [WriteJson (joinpath outputdir ''spec.json'') doc])
            else (Inl (OSError (joinpath outputdir ''spec.json'')), tr2))))"

section \<open>A small run\<close>

text \<open>
  One environment, board and annotation, for evaluating the definitions: the renderer
  always succeeds and leaves an image with the viewBox \<^verbatim>\<open>0 0 10000 5000\<close>, the
  footprint \<^verbatim>\<open>R1\<close> has the pads 1, 2, 3, 4, and the annotation names the pads 1 and 3.
\<close>

definition example_env :: env where
  "example_env =
     \<lparr> tmpdir = ''/tmp/pinion'',
       pcbdraw = (\<lambda>command. Some \<lparr> svg_readable = True, svg_viewBox = Some ''0 0 10000 5000'' \<rparr>),
       mkdir_ok = (\<lambda>d. True),
       open_ok = (\<lambda>f. True),
       float_of_str = map_of [(''0'', 0), (''10000'', 10000), (''5000'', 5000)] \<rparr>"

definition example_args :: pcbdrawArgs where
  "example_args = \<lparr> arg_style = None, arg_libs = None, arg_remap = None, arg_filter = None \<rparr>"

definition example_pad :: "string \<Rightarrow> pad" where
  "example_pad n =
     \<lparr> GetName = n,
       GetPosition = (500000, 500000),
       GetBoundingBox = \<lparr> GetX = 0, GetY = 0, GetWidth = 1000000, GetHeight = 1000000 \<rparr>,
       CuStack = [F_Cu],
       TransformShapeWithClearanceToPolygon =
         (\<lambda>clearance. [(0, 0), (1000000, 0), (1000000, 1000000)]) \<rparr>"

definition example_board :: board where
  "example_board =
     \<lparr> GetFileName = ''board.kicad_pcb'',
       FindModule = map_of [(''R1'', \<lparr> Pads = map example_pad [''1'', ''2'', ''3'', ''4''] \<rparr>)] \<rparr>"

definition example_pinspec :: "string \<Rightarrow> PinSpec" where
  "example_pinspec n =
     \<lparr> ps_name = Some n, ps_description = None, ps_alias = None, ps_groups = None,
       ps_offset = None \<rparr>"

definition example_components :: "(string \<times> ComponentSpec) list" where
  "example_components =
     [(''R1'', \<lparr> cs_description = Some ''resistor'', cs_highlight = None, cs_groups = None,
                cs_pins = Some [(''1'', example_pinspec ''A''), (''3'', example_pinspec ''C'')] \<rparr>)]"


section \<open>Validation of a group structure\<close>

lemma setitem_fresh: "k \<notin> fst ` set d \<Longrightarrow> setitem d k v = d @ [(k, v)]"
  by (induction d) auto

lemma canonical_is_dict: "canonical v \<Longrightarrow> \<exists>d. v = PDict d"
  by (cases v) auto

lemma validate_canonical_items:
  "canonical s \<longrightarrow> validateGroupStructure s = Inr s"
  "distinct (map fst items) \<and> list_all (\<lambda>(k, v). isinstance_str k \<and> canonical v) items
      \<and> fst ` set items \<inter> fst ` set acc = {}
    \<longrightarrow> validateItems items acc = Inr (PDict (acc @ items))"
proof (induction s and items acc rule: validateGroupStructure_validateItems.induct)
  case (1 items)
  then show ?case by simp
next
  case (8 key val rest newStruct)
  show ?case
  proof (intro impI, elim conjE)
    assume d: "distinct (map fst ((key, val) # rest))"
      and c: "list_all (\<lambda>(k, v). isinstance_str k \<and> canonical v) ((key, val) # rest)"
      and f: "fst ` set ((key, val) # rest) \<inter> fst ` set newStruct = {}"
    from c have ks: "isinstance_str key" and cv: "canonical val" by auto
    from cv obtain sub where val: "val = PDict sub" using canonical_is_dict by blast
    from f have fresh: "key \<notin> fst ` set newStruct" by auto
    have sub: "validateGroupStructure (PDict sub) = Inr (PDict sub)"
      using "8.IH"(6)[OF _ val] ks cv val by simp
    have rest: "validateItems rest (setitem newStruct key (PDict sub))
        = Inr (PDict (setitem newStruct key (PDict sub) @ rest))"
      using "8.IH"(7)[OF _ val sub] ks d c f fresh by (auto simp: setitem_fresh)
    show "validateItems ((key, val) # rest) newStruct = Inr (PDict (newStruct @ (key, val) # rest))"
      using ks val sub rest fresh by (simp add: setitem_fresh)
  qed
qed simp_all

text \<open>
  Claim C2, evaluated on the code: validating \<^verbatim>\<open>{"a": 5}\<close> raises nothing. The value
  \<^verbatim>\<open>5\<close> is neither \<^verbatim>\<open>None\<close>, a dictionary nor a list, so the entry is left out and
  the empty dictionary is returned.
\<close>

theorem validateGroupStructure_int_value_dropped:
  "validateGroupStructure (PDict [(PStr ''a'', PInt 5)]) = Inr (PDict [])"
  by simp

text \<open>
  The same holds one level down and inside a list: \<^verbatim>\<open>{"a": {"b": 5}}\<close> loses the
  entry \<^verbatim>\<open>b\<close>, and the list \<^verbatim>\<open>[5]\<close> is taken as a list of names, which gives a key
  that is no string.
\<close>

lemma validateGroupStructure_other_values:
  "validateGroupStructure (PDict [(PStr ''a'', PDict [(PStr ''b'', PInt 5)])])
     = Inr (PDict [(PStr ''a'', PDict [])])"
  "validateGroupStructure (PDict [(PStr ''a'', PList [PInt 5])])
     = Inr (PDict [(PStr ''a'', PDict [(PInt 5, PDict [])])])"
  by simp_all

text \<open>
  Claim C6: validation is idempotent on canonical structures. A structure in canonical
  form (nested dictionaries with string keys) is validated without a fault, and the
  structure returned is equal to the one given.
\<close>

theorem validateGroupStructure_canonical:
  "canonical s \<Longrightarrow> validateGroupStructure s = Inr s"
  using validate_canonical_items(1) by blast

theorem validateGroupStructure_canonical_witness:
  "canonical (PDict [(PStr ''a'', PDict [(PStr ''x'', PDict []), (PStr ''y'', PDict [])]),
                     (PStr ''b'', PDict [])])
   \<and> validateGroupStructure
        (PDict [(PStr ''a'', PDict [(PStr ''x'', PDict []), (PStr ''y'', PDict [])]),
                (PStr ''b'', PDict [])])
     = Inr (PDict [(PStr ''a'', PDict [(PStr ''x'', PDict []), (PStr ''y'', PDict [])]),
                   (PStr ''b'', PDict [])])"
  using validateGroupStructure_canonical
    [of "PDict [(PStr ''a'', PDict [(PStr ''x'', PDict []), (PStr ''y'', PDict [])]),
                (PStr ''b'', PDict [])]"]
  by simp

section \<open>Bounding boxes\<close>

text \<open>
  Claim C3 as stated fails: \<^verbatim>\<open>serializeEdaRect\<close> adds the width to the origin and
  does not reorder the corners, so a rectangle one millimetre wide to the left of its
  origin gets a top-left corner to the right of its bottom-right corner.
\<close>

theorem serializeEdaRect_negative_width_counterexample:
  "\<not> (fst (bbox_tl (serializeEdaRect \<lparr>GetX = 0, GetY = 0, GetWidth = - 1000000, GetHeight = 0\<rparr>))
      \<le> fst (bbox_br (serializeEdaRect \<lparr>GetX = 0, GetY = 0, GetWidth = - 1000000, GetHeight = 0\<rparr>)))"
  by (simp add: serializeEdaRect_def ki2mm_def)

text \<open>
  Claim C3, amended: for every native-unit rectangle whose width and height are not
  negative, the top-left corner of the serialized bounding box is at or before its
  bottom-right corner in x and in y.
\<close>

theorem serializeEdaRect_ordered:
  "0 \<le> GetWidth r \<Longrightarrow> 0 \<le> GetHeight r \<Longrightarrow>
   fst (bbox_tl (serializeEdaRect r)) \<le> fst (bbox_br (serializeEdaRect r)) \<and>
   snd (bbox_tl (serializeEdaRect r)) \<le> snd (bbox_br (serializeEdaRect r))"
  by (simp add: serializeEdaRect_def ki2mm_def divide_right_mono)

theorem serializeEdaRect_ordered_witness:
  "0 \<le> GetWidth \<lparr>GetX = - 2000000, GetY = 1000000, GetWidth = 3000000, GetHeight = 0\<rparr>
   \<and> 0 \<le> GetHeight \<lparr>GetX = - 2000000, GetY = 1000000, GetWidth = 3000000, GetHeight = 0\<rparr>
   \<and> fst (bbox_tl (serializeEdaRect \<lparr>GetX = - 2000000, GetY = 1000000, GetWidth = 3000000, GetHeight = 0\<rparr>))
      \<le> fst (bbox_br (serializeEdaRect \<lparr>GetX = - 2000000, GetY = 1000000, GetWidth = 3000000, GetHeight = 0\<rparr>))
   \<and> snd (bbox_tl (serializeEdaRect \<lparr>GetX = - 2000000, GetY = 1000000, GetWidth = 3000000, GetHeight = 0\<rparr>))
      \<le> snd (bbox_br (serializeEdaRect \<lparr>GetX = - 2000000, GetY = 1000000, GetWidth = 3000000, GetHeight = 0\<rparr>))"
  using serializeEdaRect_ordered
    [of "\<lparr>GetX = - 2000000, GetY = 1000000, GetWidth = 3000000, GetHeight = 0\<rparr>"]
  by simp

section \<open>The extension of a path\<close>

lemma rfind_from_append:
  "rfind_from (xs @ ys) c i found = rfind_from ys c (i + int (length xs)) (rfind_from xs c i found)"
  by (induction xs arbitrary: i found) (auto simp: algebra_simps)

lemma rfind_from_absent: "c \<notin> set xs \<Longrightarrow> rfind_from xs c i found = found"
  by (induction xs arbitrary: i) auto

lemma rfind_from_upper: "found < i \<Longrightarrow> rfind_from xs c i found < i + int (length xs)"
proof (induction xs arbitrary: i found)
  case Nil
  then show ?case by simp
next
  case (Cons x xs)
  have "rfind_from xs c (i + 1) (if x = c then i else found) < (i + 1) + int (length xs)"
    by (rule Cons.IH) (use Cons.prems in auto)
  then show ?case by simp
qed

lemma rfind_from_lower: "- 1 \<le> found \<Longrightarrow> 0 \<le> i \<Longrightarrow> - 1 \<le> rfind_from xs c i found"
  by (induction xs arbitrary: i found) auto

text \<open>The scan over leading dots stops at the first character that is no dot.\<close>

lemma splitext_scan_stops:
  "0 \<le> filenameIndex \<Longrightarrow> filenameIndex \<le> int k \<Longrightarrow> int k < dotIndex \<Longrightarrow> k < length p
   \<Longrightarrow> p ! k \<noteq> CHR ''.''
   \<Longrightarrow> splitext_scan p filenameIndex dotIndex = (take (nat dotIndex) p, drop (nat dotIndex) p)"
proof (induction p filenameIndex dotIndex rule: splitext_scan.induct)
  case (1 p filenameIndex dotIndex)
  show ?case
  proof (cases "take 1 (drop (nat filenameIndex) p) \<noteq> ''.''")
    case True
    with "1.prems" show ?thesis by (subst splitext_scan.simps) simp
  next
    case False
    have lt: "nat filenameIndex < length p" using "1.prems" by linarith
    then have "take 1 (drop (nat filenameIndex) p) = [p ! nat filenameIndex]"
      by (simp add: take_Suc_conv_app_nth)
    with False have "p ! nat filenameIndex = CHR ''.''" by simp
    with "1.prems" have "nat filenameIndex \<noteq> k" by auto
    with "1.prems" have next_le: "filenameIndex + 1 \<le> int k" by linarith
    have "splitext_scan p (filenameIndex + 1) dotIndex = (take (nat dotIndex) p, drop (nat dotIndex) p)"
      by (rule "1.IH") (use "1.prems" False next_le in auto)
    with False "1.prems" show ?thesis by (subst splitext_scan.simps) simp
  qed
qed

text \<open>
  A file name \<open>stem.e\<close> behind any prefix: when the stem does not start with a dot and
  neither stem nor \<open>e\<close> holds a separator, and \<open>e\<close> holds no dot, the extension is
  \<open>.e\<close>.
\<close>

lemma splitext_append:
  assumes stem: "stem \<noteq> []" "hd stem \<noteq> CHR ''.''" "CHR ''/'' \<notin> set stem"
    and e: "CHR ''.'' \<notin> set e" "CHR ''/'' \<notin> set e"
  shows "splitext (pre @ stem @ CHR ''.'' # e) = (pre @ stem, CHR ''.'' # e)"
proof -
  let ?p = "pre @ stem @ CHR ''.'' # e"
  let ?n = "length pre + length stem"
  have dot: "rfind ?p CHR ''.'' = int ?n"
  proof -
    have "rfind ?p CHR ''.''
        = rfind_from (CHR ''.'' # e) CHR ''.'' (int ?n) (rfind_from (pre @ stem) CHR ''.'' 0 (- 1))"
      unfolding rfind_def
      using rfind_from_append[of "pre @ stem" "CHR ''.'' # e" "CHR ''.''" 0 "- 1"] by simp
    also have "\<dots> = int ?n" using e(1) by (simp add: rfind_from_absent)
    finally show ?thesis .
  qed
  have sep_eq: "rfind ?p CHR ''/'' = rfind_from pre CHR ''/'' 0 (- 1)"
  proof -
    have "rfind ?p CHR ''/''
        = rfind_from (stem @ CHR ''.'' # e) CHR ''/'' (int (length pre)) (rfind_from pre CHR ''/'' 0 (- 1))"
      unfolding rfind_def
      using rfind_from_append[of pre "stem @ CHR ''.'' # e" "CHR ''/''" 0 "- 1"] by simp
    also have "\<dots> = rfind_from pre CHR ''/'' 0 (- 1)"
      using stem(3) e(2) by (intro rfind_from_absent) auto
    finally show ?thesis .
  qed
  have sep_hi: "rfind ?p CHR ''/'' < int (length pre)"
    unfolding sep_eq using rfind_from_upper[of "- 1" 0 pre "CHR ''/''"] by simp
  have sep_lo: "- 1 \<le> rfind ?p CHR ''/''"
    unfolding sep_eq by (rule rfind_from_lower) auto
  have nth: "?p ! length pre \<noteq> CHR ''.''"
    using stem(1,2) by (cases stem) (auto simp: nth_append)
  have scan: "splitext_scan ?p (rfind ?p CHR ''/'' + 1) (int ?n)
      = (take (nat (int ?n)) ?p, drop (nat (int ?n)) ?p)"
    by (rule splitext_scan_stops[where k = "length pre"]) (use sep_hi sep_lo stem(1) nth in auto)
  have gt: "rfind ?p CHR ''.'' > rfind ?p CHR ''/''" using dot sep_hi by linarith
  show ?thesis
    using gt scan unfolding splitext_def Let_def dot by simp
qed

lemma joinpath_suffix: "\<exists>pre. joinpath d name = pre @ name"
  unfolding joinpath_def by (metis append.assoc append_Nil)

lemma splitext_front: "snd (splitext (joinpath d ''front.png'')) = ''.png''"
proof -
  obtain pre where j: "joinpath d ''front.png'' = pre @ ''front.png''"
    using joinpath_suffix by blast
  have "splitext (pre @ ''front'' @ CHR ''.'' # ''png'') = (pre @ ''front'', CHR ''.'' # ''png'')"
    by (rule splitext_append) simp_all
  then show ?thesis using j by simp
qed

lemma splitext_back: "snd (splitext (joinpath d ''back.png'')) = ''.png''"
proof -
  obtain pre where j: "joinpath d ''back.png'' = pre @ ''back.png''"
    using joinpath_suffix by blast
  have "splitext (pre @ ''back'' @ CHR ''.'' # ''png'') = (pre @ ''back'', CHR ''.'' # ''png'')"
    by (rule splitext_append) simp_all
  then show ?thesis using j by simp
qed

lemma str_lower_png: "str_lower ''.png'' = ''.png''"
  by code_simp

section \<open>Rendering one side\<close>

lemma write_blob_cases:
  "write_blob ev f ty tr = (Inr (), tr @ [WriteBitmap f ty]) \<or>
   write_blob ev f ty tr = (Inl (OSError f), tr)"
  by (simp add: write_blob_def)

lemma svgToBitmap_png:
  assumes "snd (splitext f) = ''.png''"
  shows "svgToBitmap ev svg f dpi tr = (Inl WandError, tr) \<or>
         svgToBitmap ev svg f dpi tr = (Inl (OSError f), tr) \<or>
         svgToBitmap ev svg f dpi tr = (Inr (), tr @ [WriteBitmap f ''png32''])"
  using assms write_blob_cases[of ev f "''png32''" tr]
  by (auto simp: svgToBitmap_def str_lower_png)


lemma svgToBitmap_unsupported:
  assumes "str_lower (snd (splitext f)) \<notin> {''.png'', ''.jpg'', ''.jpeg''}"
  shows "svgToBitmap ev svg f dpi tr =
     (if svg_readable svg then Inl (RuntimeError (UnsupportedOutputImageType (snd (splitext f))))
      else Inl WandError, tr)"
  using assms by (auto simp: svgToBitmap_def Let_def)

lemma viewBox_area_error: "viewBox_area ev vb = Inl e \<Longrightarrow> e = ValueError"
  by (auto simp: viewBox_area_def split: list.splits option.splits)


text \<open>With a \<^verbatim>\<open>.png\<close> file name the fault for the image type and the JPEG encoder are out of reach.\<close>

lemma generateImage_png:
  assumes ext: "snd (splitext f) = ''.png''"
    and g: "generateImage ev b f dpi args back tr = (r, tr')"
  shows "r \<noteq> Inl (RuntimeError (UnsupportedOutputImageType x))
       \<and> (\<exists>evs. tr' = tr @ evs \<and> (\<forall>h. WriteBitmap h ''jpeg'' \<notin> set evs))"
proof (cases "pcbdraw ev (pcbdraw_command b (tmpdir ev @ ''/img.svg'') args back)")
  case None
  with g show ?thesis by (auto simp: generateImage_def Let_def)
next
  case (Some svg)
  let ?tr1 = "tr @ [Run (pcbdraw_command b (tmpdir ev @ ''/img.svg'') args back)]"
  from svgToBitmap_png[OF ext, of ev svg dpi ?tr1]
  consider (wand) "svgToBitmap ev svg f dpi ?tr1 = (Inl WandError, ?tr1)"
    | (os) "svgToBitmap ev svg f dpi ?tr1 = (Inl (OSError f), ?tr1)"
    | (ok) "svgToBitmap ev svg f dpi ?tr1 = (Inr (), ?tr1 @ [WriteBitmap f ''png32''])"
    by blast
  then show ?thesis
  proof cases
    case wand
    with g Some show ?thesis by (auto simp: generateImage_def Let_def)
  next
    case os
    with g Some show ?thesis by (auto simp: generateImage_def Let_def)
  next
    case ok
    with g Some have tr': "tr' = ?tr1 @ [WriteBitmap f ''png32'']"
      and r: "r = (case svg_viewBox svg of None \<Rightarrow> Inl (KeyError ''viewBox'')
                   | Some vb \<Rightarrow> viewBox_area ev vb)"
      by (auto simp: generateImage_def Let_def split: option.splits)
    from r have "r \<noteq> Inl (RuntimeError (UnsupportedOutputImageType x))"
      using viewBox_area_error by (auto split: option.splits)
    with tr' show ?thesis by auto
  qed
qed

text \<open>
  Claim C4 as stated fails: with the output file \<^verbatim>\<open>out/front.bmp\<close> the renderer is
  started first, and the fault for the image type is raised afterwards, when
  \<^verbatim>\<open>svgToBitmap\<close> looks at the extension. The trace of the run holds the renderer's
  command line.
\<close>

theorem generateImage_bmp_after_renderer_counterexample:
  "generateImage example_env ''board.kicad_pcb'' ''out/front.bmp'' 300 example_args False []
   = (Inl (RuntimeError (UnsupportedOutputImageType ''.bmp'')),
      [Run [''pcbdraw'', ''--shrink'', ''0'', ''board.kicad_pcb'', ''/tmp/pinion/img.svg'']])"
  by code_simp

text \<open>
  Claim C4, amended: when the extension of the output file is not \<^verbatim>\<open>.png\<close>,
  \<^verbatim>\<open>.jpg\<close> or \<^verbatim>\<open>.jpeg\<close> (in any letter case), generating the image of a side starts the
  renderer, does nothing else to the outside world (no bitmap is written) and ends in a
  fault; when the renderer succeeds and its image can be read, the fault is the one for
  the unsupported image type, naming the extension.
\<close>

theorem generateImage_unsupported_extension:
  assumes "str_lower (snd (splitext outputfilename)) \<notin> {''.png'', ''.jpg'', ''.jpeg''}"
  shows "snd (generateImage ev boardfilename outputfilename dpi args back tr)
           = tr @ [Run (pcbdraw_command boardfilename (tmpdir ev @ ''/img.svg'') args back)]
       \<and> (\<exists>e. fst (generateImage ev boardfilename outputfilename dpi args back tr) = Inl e)
       \<and> (\<forall>svg. pcbdraw ev (pcbdraw_command boardfilename (tmpdir ev @ ''/img.svg'') args back) = Some svg
             \<and> svg_readable svg \<longrightarrow>
           fst (generateImage ev boardfilename outputfilename dpi args back tr)
             = Inl (RuntimeError (UnsupportedOutputImageType (snd (splitext outputfilename)))))"
  using assms
  by (auto simp: generateImage_def Let_def svgToBitmap_unsupported split: option.splits)

theorem generateImage_unsupported_extension_witness:
  "str_lower (snd (splitext ''out/front.bmp'')) \<notin> {''.png'', ''.jpg'', ''.jpeg''}
   \<and> snd (generateImage example_env ''board.kicad_pcb'' ''out/front.bmp'' 300 example_args False [])
       = [Run (pcbdraw_command ''board.kicad_pcb'' (tmpdir example_env @ ''/img.svg'') example_args False)]
   \<and> fst (generateImage example_env ''board.kicad_pcb'' ''out/front.bmp'' 300 example_args False [])
       = Inl (RuntimeError (UnsupportedOutputImageType ''.bmp''))"
proof -
  have ext: "str_lower (snd (splitext ''out/front.bmp'')) \<notin> {''.png'', ''.jpg'', ''.jpeg''}"
    by code_simp
  have sp: "snd (splitext ''out/front.bmp'') = ''.bmp''" by code_simp
  have run: "pcbdraw example_env
       (pcbdraw_command ''board.kicad_pcb'' (tmpdir example_env @ ''/img.svg'') example_args False)
     = Some \<lparr> svg_readable = True, svg_viewBox = Some ''0 0 10000 5000'' \<rparr>"
    by (simp add: example_env_def)
  from generateImage_unsupported_extension
    [OF ext, of example_env "''board.kicad_pcb''" 300 example_args False "[]"] run sp ext
  show ?thesis by simp
qed



section \<open>Components and pins\<close>

lemma pinsOfPads_named:
  assumes "\<forall>ps \<in> snd ` set spec. ps_name ps \<noteq> None"
  shows "\<exists>pins. pinsOfPads spec fp pads = Inr pins
     \<and> list_all2 (\<lambda>pad pin. \<exists>ps. map_of spec (GetName pad) = Some ps \<and> pinDefinition ps pad fp = Inr pin)
          (filter (\<lambda>pad. GetName pad \<in> fst ` set spec) pads) pins"
proof (induction pads)
  case Nil
  then show ?case by simp
next
  case (Cons pad pads)
  then obtain pins where rest: "pinsOfPads spec fp pads = Inr pins"
    and all: "list_all2
          (\<lambda>pad pin. \<exists>ps. map_of spec (GetName pad) = Some ps \<and> pinDefinition ps pad fp = Inr pin)
          (filter (\<lambda>pad. GetName pad \<in> fst ` set spec) pads) pins"
    by blast
  show ?case
  proof (cases "map_of spec (GetName pad)")
    case None
    then have "GetName pad \<notin> fst ` set spec" by (simp add: map_of_eq_None_iff)
    with None rest all show ?thesis by simp
  next
    case (Some ps)
    then have mem: "(GetName pad, ps) \<in> set spec" by (rule map_of_SomeD)
    then have "ps \<in> snd ` set spec" by force
    with assms obtain n where "ps_name ps = Some n" by auto
    then obtain pin where pin: "pinDefinition ps pad fp = Inr pin"
      by (simp add: pinDefinition_def)
    have "GetName pad \<in> fst ` set spec" using mem by force
    with Some pin rest all show ?thesis by simp
  qed
qed

text \<open>
  Claim C5: for an annotation in which every component has its description and its pins,
  every pin its name, and every reference a footprint on the board, the components are
  assembled without a fault, one per reference in document order, and the pins of a
  component correspond one to one, in the footprint's order of pads, to the pads whose
  name is a key of the \<^verbatim>\<open>pins\<close> mapping: each pin is built from the annotation stored
  under its pad's name. The other pads are left out.
\<close>

theorem componentsDefinition_named_pads:
  assumes wf: "\<forall>(ref, s) \<in> set comps. cs_description s \<noteq> None \<and> FindModule brd ref \<noteq> None
       \<and> (\<exists>pinspecs. cs_pins s = Some pinspecs \<and> (\<forall>ps \<in> snd ` set pinspecs. ps_name ps \<noteq> None))"
  shows "\<exists>defs. componentsDefinition comps brd = Inr defs
     \<and> list_all2
          (\<lambda>(ref, s) c. comp_ref c = ref \<and>
             (\<exists>fp pinspecs. FindModule brd ref = Some fp \<and> cs_pins s = Some pinspecs \<and>
                list_all2 (\<lambda>pad pin. \<exists>ps. map_of pinspecs (GetName pad) = Some ps
                                        \<and> pinDefinition ps pad fp = Inr pin)
                  (filter (\<lambda>pad. GetName pad \<in> fst ` set pinspecs) (Pads fp)) (comp_pins c)))
          comps defs"
  using wf
proof (induction comps)
  case Nil
  then show ?case by simp
next
  case (Cons a comps)
  obtain ref s where a: "a = (ref, s)" by (cases a)
  from Cons.prems a obtain descr fp pinspecs where
    d: "cs_description s = Some descr" and f: "FindModule brd ref = Some fp"
    and p: "cs_pins s = Some pinspecs" and n: "\<forall>ps \<in> snd ` set pinspecs. ps_name ps \<noteq> None"
    by auto
  from pinsOfPads_named[OF n, of fp "Pads fp"] obtain pins where
    pins: "pinsOfPads pinspecs fp (Pads fp) = Inr pins"
    and all: "list_all2
          (\<lambda>pad pin. \<exists>ps. map_of pinspecs (GetName pad) = Some ps \<and> pinDefinition ps pad fp = Inr pin)
          (filter (\<lambda>pad. GetName pad \<in> fst ` set pinspecs) (Pads fp)) pins"
    by blast
  from Cons.IH Cons.prems obtain defs where
    rest: "componentsDefinition comps brd = Inr defs"
    and restall: "list_all2
          (\<lambda>(ref, s) c. comp_ref c = ref \<and>
             (\<exists>fp pinspecs. FindModule brd ref = Some fp \<and> cs_pins s = Some pinspecs \<and>
                list_all2 (\<lambda>pad pin. \<exists>ps. map_of pinspecs (GetName pad) = Some ps
                                        \<and> pinDefinition ps pad fp = Inr pin)
                  (filter (\<lambda>pad. GetName pad \<in> fst ` set pinspecs) (Pads fp)) (comp_pins c)))
          comps defs"
    by auto
  show ?case
    using d f p pins all rest restall by (simp add: a pinsDefinition_def)
qed

theorem componentsDefinition_named_pads_witness:
  "\<exists>defs. componentsDefinition example_components example_board = Inr defs
     \<and> list_all2
          (\<lambda>(ref, s) c. comp_ref c = ref \<and>
             (\<exists>fp pinspecs. FindModule example_board ref = Some fp \<and> cs_pins s = Some pinspecs \<and>
                list_all2 (\<lambda>pad pin. \<exists>ps. map_of pinspecs (GetName pad) = Some ps
                                        \<and> pinDefinition ps pad fp = Inr pin)
                  (filter (\<lambda>pad. GetName pad \<in> fst ` set pinspecs) (Pads fp)) (comp_pins c)))
          example_components defs"
proof -
  have wf: "\<forall>(ref, s) \<in> set example_components.
       cs_description s \<noteq> None \<and> FindModule example_board ref \<noteq> None
       \<and> (\<exists>pinspecs. cs_pins s = Some pinspecs \<and> (\<forall>ps \<in> snd ` set pinspecs. ps_name ps \<noteq> None))"
    by (simp add: example_components_def example_board_def example_pinspec_def)
  from componentsDefinition_named_pads[OF wf] show ?thesis .
qed

text \<open>
  The example of the specification: the pins mapping names the pads 1 and 3 of a
  footprint with the pads 1, 2, 3, 4, and the component gets two pins, the one of pad 1
  before the one of pad 3.
\<close>

lemma componentsDefinition_example:
  "map_sum id (map (\<lambda>c. (comp_ref c, map pin_name (comp_pins c))))
     (componentsDefinition example_components example_board)
   = Inr [(''R1'', [''A'', ''C''])]"
  by code_simp

section \<open>No fault of the image type in the rest of the pipeline\<close>

lemma leafDict_not_unsupported: "leafDict vs d \<noteq> Inl (RuntimeError (UnsupportedOutputImageType x))"
  by (induction vs d rule: leafDict.induct) auto

lemma validate_not_unsupported:
  "validateGroupStructure s \<noteq> Inl (RuntimeError (UnsupportedOutputImageType x))"
  "validateItems items acc \<noteq> Inl (RuntimeError (UnsupportedOutputImageType x))"
proof (induction s and items acc rule: validateGroupStructure_validateItems.induct)
  case (8 key val rest newStruct)
  then show ?case
    by (cases val) (auto simp: leafDict_not_unsupported split: sum.splits)
qed simp_all

lemma collectLoop_not_unsupported:
  "collectLoop comps G \<noteq> Inl (RuntimeError (UnsupportedOutputImageType x))"
  by (induction comps G rule: collectLoop.induct) (auto simp: Let_def split: option.splits)

lemma groupStructure_not_unsupported:
  "groupStructure s comps \<noteq> Inl (RuntimeError (UnsupportedOutputImageType x))"
  using collectLoop_not_unsupported[of comps "{}" x] validate_not_unsupported(1)[of s x]
  by (auto simp: groupStructure_def collectGroups_def split: sum.splits)

lemma pinsOfPads_not_unsupported:
  "pinsOfPads spec fp pads \<noteq> Inl (RuntimeError (UnsupportedOutputImageType x))"
  by (induction pads) (auto simp: pinDefinition_def split: option.splits sum.splits)

lemma componentsDefinition_not_unsupported:
  "componentsDefinition comps brd \<noteq> Inl (RuntimeError (UnsupportedOutputImageType x))"
proof (induction comps)
  case Nil
  then show ?case by simp
next
  case (Cons a comps)
  obtain ref s where a: "a = (ref, s)" by (cases a)
  show ?case
    using Cons.IH pinsOfPads_not_unsupported
    by (auto simp: a pinsDefinition_def split: option.splits sum.splits)
qed

lemma generate_document_not_unsupported:
  "generate_document brd sp a b \<noteq> Inl (RuntimeError (UnsupportedOutputImageType x))"
  using componentsDefinition_not_unsupported groupStructure_not_unsupported
  by (auto simp: generate_document_def split: option.splits sum.splits)

section \<open>The whole run\<close>



text \<open>
  Claim C10: in every run of \<^verbatim>\<open>generate\<close>, whatever the output directory, the
  extension that \<^verbatim>\<open>svgToBitmap\<close> sees is \<^verbatim>\<open>.png\<close> for both sides; the run never
  ends in the fault for an unsupported image type, and no bitmap is written with the
  JPEG encoder.
\<close>

theorem generate_extension_always_png:
  "snd (splitext (joinpath outputdir ''front.png'')) = ''.png''
   \<and> snd (splitext (joinpath outputdir ''back.png'')) = ''.png''
   \<and> fst (generate ev brd specification outputdir dpi args)
        \<noteq> Inl (RuntimeError (UnsupportedOutputImageType x))
   \<and> WriteBitmap f ''jpeg'' \<notin> set (snd (generate ev brd specification outputdir dpi args))"
proof -
  let ?ffile = "joinpath outputdir ''front.png''" and ?bfile = "joinpath outputdir ''back.png''"
  have sf: "snd (splitext ?ffile) = ''.png''" by (rule splitext_front)
  have sb: "snd (splitext ?bfile) = ''.png''" by (rule splitext_back)
  have main: "fst (generate ev brd specification outputdir dpi args)
        \<noteq> Inl (RuntimeError (UnsupportedOutputImageType x))
   \<and> WriteBitmap f ''jpeg'' \<notin> set (snd (generate ev brd specification outputdir dpi args))"
  proof (cases "mkdir_ok ev outputdir")
    case False
    then show ?thesis by (simp add: generate_def)
  next
    case True
    obtain r1 tr1 where g1: "generateImage ev (GetFileName brd) ?ffile dpi args False
        [MakeDirs outputdir] = (r1, tr1)"
      by (cases "generateImage ev (GetFileName brd) ?ffile dpi args False [MakeDirs outputdir]")
    from generateImage_png[OF sf g1, of x]
    have r1: "r1 \<noteq> Inl (RuntimeError (UnsupportedOutputImageType x))"
      and n1: "WriteBitmap f ''jpeg'' \<notin> set tr1" by auto
    obtain r2 tr2 where g2: "generateImage ev (GetFileName brd) ?bfile dpi args True tr1 = (r2, tr2)"
      by (cases "generateImage ev (GetFileName brd) ?bfile dpi args True tr1")
    from generateImage_png[OF sb g2, of x] n1
    have r2: "r2 \<noteq> Inl (RuntimeError (UnsupportedOutputImageType x))"
      and n2: "WriteBitmap f ''jpeg'' \<notin> set tr2" by auto
    show ?thesis
      using True g1 g2 r1 r2 n1 n2 generate_document_not_unsupported
      by (auto simp: generate_def split: sum.splits)
  qed
  with sf sb show ?thesis by blast
qed

section \<open>Collected groups\<close>

lemma update_unpacked_eq: "update_unpacked G args = G \<union> (\<Union>g\<in>set args. set (str_iter g))"
  unfolding update_unpacked_def by (induction args arbitrary: G) auto

lemma update_pins_eq: "update_pins G ps = G \<union> (\<Union>p\<in>set ps. set (get_default (ps_groups p) []))"
  unfolding update_pins_def by (induction ps arbitrary: G) auto

lemma collectLoop_eq:
  "collectLoop comps G = Inr G' \<Longrightarrow> G' = G \<union> (\<Union>c\<in>set (map snd comps). collected c)"
proof (induction comps G rule: collectLoop.induct)
  case (1 groups)
  then show ?case by simp
next
  case (2 ref c rest groups)
  from "2.prems" obtain pins where p: "cs_pins c = Some pins"
    by (auto simp: Let_def split: option.splits)
  with "2.prems" have "collectLoop rest
      (update_pins (update_unpacked groups (get_default (cs_groups c) [])) (map snd pins)) = Inr G'"
    by (simp add: Let_def)
  from "2.IH"[OF refl p this] show ?case
    by (auto simp: update_unpacked_eq update_pins_eq collected_def p get_default_def)
qed

lemma finite_collected: "finite (collected c)"
  by (simp add: collected_def)

text \<open>
  What the code collects: a single-level dictionary whose keys are sorted and without
  repetition and whose values are all the empty list; the keys are the group names of
  the pins together with the single characters of the group names of the components.
\<close>

lemma collectGroups_keys:
  assumes "collectGroups comps = Inr v"
  shows "\<exists>ks. v = PDict (map (\<lambda>g. (PStr g, PList [])) ks) \<and> sorted ks \<and> distinct ks
       \<and> set ks = (\<Union>c\<in>set (map snd comps). collected c)"
proof -
  from assms obtain G where G: "collectLoop comps {} = Inr G"
    and v: "v = PDict (map (\<lambda>g. (PStr g, PList [])) (sorted_list_of_set G))"
    by (auto simp: collectGroups_def split: sum.splits)
  from collectLoop_eq[OF G] have eq: "G = (\<Union>c\<in>set (map snd comps). collected c)" by simp
  then have "finite G" by (simp add: finite_collected)
  then show ?thesis using v eq by (intro exI[of _ "sorted_list_of_set G"]) simp
qed

text \<open>
  Claim C1, evaluated on the code: for an annotation without a \<^verbatim>\<open>groups\<close> structure
  whose one component \<^verbatim>\<open>R1\<close> has \<^verbatim>\<open>"groups": ["power"]\<close> and no pins, the taxonomy
  returned has the five keys \<^verbatim>\<open>e\<close>, \<^verbatim>\<open>o\<close>, \<^verbatim>\<open>p\<close>, \<^verbatim>\<open>r\<close>, \<^verbatim>\<open>w\<close>, not the key
  \<^verbatim>\<open>power\<close>: the group name of the component is taken apart into its characters.
\<close>

theorem groupStructure_component_group_split:
  "groupStructure PNone
     [(''R1'', \<lparr>cs_description = Some ''resistor'', cs_highlight = None,
               cs_groups = Some [''power''], cs_pins = Some []\<rparr>)]
   = Inr (PDict [(PStr ''e'', PList []), (PStr ''o'', PList []), (PStr ''p'', PList []),
                 (PStr ''r'', PList []), (PStr ''w'', PList [])])"
  by code_simp

section \<open>Decimils to millimetres\<close>

text \<open>In exact arithmetic the two conversions compose to the factor 0.00254.\<close>

lemma ki2mm_dmil2ki: "ki2mm (dmil2ki v) = v * 0.00254"
  by (simp add: ki2mm_def dmil2ki_def)

end
